theory Spec2Isabelle
  imports Main
begin

section \<open>Failures at the boundary\<close>

text \<open>
  The handlers of \<^verbatim>\<open>manager/api/api.ts\<close> signal failure by throwing. Two kinds of thrown
  value occur: a \<^verbatim>\<open>ConnectError\<close> carrying a message and a code of the boundary's
  taxonomy, and any other JavaScript error, which carries a message.
  The codes are those the handlers and the specification's taxonomy name.
\<close>

datatype code =
  InvalidInput | Unauthenticated | FailedPrecondition | NotFound | UpstreamUnavailable | Internal

datatype failure = ConnectError string code | JsError string

text \<open>
  The name Connect prints for a code: the name of the code in snake case. The taxonomy's
  \<open>InvalidInput\<close> and \<open>UpstreamUnavailable\<close> are Connect's \<^verbatim>\<open>InvalidArgument\<close> and
  \<^verbatim>\<open>Unavailable\<close>.
\<close>

fun codeToString :: "code \<Rightarrow> string" where
  "codeToString InvalidInput = ''invalid_argument''"
| "codeToString Unauthenticated = ''unauthenticated''"
| "codeToString FailedPrecondition = ''failed_precondition''"
| "codeToString NotFound = ''not_found''"
| "codeToString UpstreamUnavailable = ''unavailable''"
| "codeToString Internal = ''internal''"

text \<open>
  What \<^verbatim>\<open>e.message\<close> reads. A \<^verbatim>\<open>ConnectError\<close> is built from a text and a code; its
  \<^verbatim>\<open>message\<close> is that text behind the bracketed name of the code, and the bracketed name
  alone when the text is empty.
\<close>

fun message :: "failure \<Rightarrow> string" where
  "message (ConnectError m c) =
     (if m = [] then ''['' @ codeToString c @ '']''
      else ''['' @ codeToString c @ ''] '' @ m)"
| "message (JsError m) = m"

fun failure_code :: "failure \<Rightarrow> code option" where
  "failure_code (ConnectError m c) = Some c"
| "failure_code (JsError m) = None"

fun outcome_code :: "failure + 'a \<Rightarrow> code option" where
  "outcome_code (Inl e) = failure_code e"
| "outcome_code (Inr x) = None"

section \<open>Process state and effects\<close>

text \<open>
  Every call a handler issues to a collaborator is recorded, in order, in \<open>calls\<close>;
  \<open>console\<close> holds what was handed to \<^verbatim>\<open>console.error\<close>, a line of text or an error
  object; \<open>setupDone\<close> is \<^verbatim>\<open>config.setupDone\<close>.
\<close>

datatype printed = Line string | ErrorObject failure

datatype call =
  CreateComputeAPI
| ListCall
| ShutdownCall string
| PauseCall string
| StartCall string
| RemoveCall string
| SetupControllerCall string
| GetAllModelsCall
| ListWorkersControllerCall
| CreateInferenceWorkerControllerCall string

fun mutating :: "call \<Rightarrow> bool" where
  "mutating (ShutdownCall ip) = True"
| "mutating (PauseCall n) = True"
| "mutating (StartCall n) = True"
| "mutating (RemoveCall n) = True"
| "mutating c = False"

record state =
  setupDone :: bool
  calls :: "call list"
  console :: "printed list"

type_synonym 'a io = "state \<Rightarrow> (failure + 'a) \<times> state"

definition ret :: "'a \<Rightarrow> 'a io" where
  "ret x = (\<lambda>s. (Inr x, s))"

definition throw :: "failure \<Rightarrow> 'a io" where
  "throw e = (\<lambda>s. (Inl e, s))"

definition await :: "'a io \<Rightarrow> ('a \<Rightarrow> 'b io) \<Rightarrow> 'b io" where
  "await m k = (\<lambda>s. case m s of (Inl e, s') \<Rightarrow> (Inl e, s') | (Inr x, s') \<Rightarrow> k x s')"

definition catch :: "'a io \<Rightarrow> (failure \<Rightarrow> 'a io) \<Rightarrow> 'a io" where
  "catch m h = (\<lambda>s. case m s of (Inl e, s') \<Rightarrow> h e s' | (Inr x, s') \<Rightarrow> (Inr x, s'))"

definition console_error :: "printed \<Rightarrow> unit io" where
  "console_error x = (\<lambda>s. (Inr (), s\<lparr>console := console s @ [x]\<rparr>))"

definition issue :: "call \<Rightarrow> failure + 'a \<Rightarrow> 'a io" where
  "issue c r = (\<lambda>s. (r, s\<lparr>calls := calls s @ [c]\<rparr>))"

section \<open>Messages of the service\<close>

typedecl message
typedecl worker_summary

record SetupRequest =
  keyFile :: "string option"

record ChatCompletionRequest =
  cc_workerName :: string
  cc_messages :: "message list"

record ChatCompletionResponse =
  resp_text :: string

record Model =
  model_name :: string

record ListModelsResponse =
  models :: "Model list"

record ListWorkersResponse =
  workers :: "worker_summary list"

record CreateInferenceWorkerRequest =
  modelName :: string
  ciw_workerName :: "string option"
  quantization :: string
  gpuType :: string
  gpuCount :: int

record requestedResources =
  rr_quantization :: string
  rr_gpuType :: string
  rr_gpuCount :: int

record InferenceWorker =
  workerName :: string

section \<open>Collaborators\<close>

text \<open>
  A resource record as \<^verbatim>\<open>list(api)\<close> returns it. The name and the status may be missing
  (\<^verbatim>\<open>undefined\<close>), which is why the handlers test \<^verbatim>\<open>!worker.name\<close>.
\<close>

record worker =
  name :: "string option"
  status :: "string option"
  address :: "string option"

text \<open>JavaScript truthiness of a value of type \<^verbatim>\<open>string | undefined\<close>.\<close>

fun truthy :: "string option \<Rightarrow> bool" where
  "truthy None = False"
| "truthy (Some v) = (v \<noteq> [])"

text \<open>A lazily produced sequence: an async iterable that may end, fail, or go on forever.\<close>

codatatype 'a astream = Done | Fail failure | Item 'a "'a astream"

record fragment =
  frag_text :: string

text \<open>
  The answers of the collaborators that \<^verbatim>\<open>api.ts\<close> imports, and the assertion functions
  that \<^verbatim>\<open>typia.createAssertEquals\<close> generates, are parameters of the model. A promise that
  rejects is an \<open>Inl\<close>, or \<open>Some\<close> failure where the promise carries no value.
\<close>

record env =
  createComputeAPI_result :: "failure option"
  list_result :: "failure + worker list"
  pause_result :: "string \<Rightarrow> failure option"
  start_result :: "string \<Rightarrow> failure option"
  remove_result :: "string \<Rightarrow> failure option"
  shutdown_result :: "string \<Rightarrow> failure option"
  getAllModels_result :: "failure + string list"
  listWorkersController_result :: "failure + worker_summary list"
  createInferenceWorkerController_result ::
    "string \<Rightarrow> requestedResources \<Rightarrow> string option \<Rightarrow> failure + string"
  generateController_result :: "string \<Rightarrow> message list \<Rightarrow> failure + fragment astream"
  setupController_result :: "string \<Rightarrow> failure option"
  setupInputValid :: "SetupRequest \<Rightarrow> bool"
  listModelsInputValid :: "unit \<Rightarrow> bool"
  listWorkersInputValid :: "unit \<Rightarrow> bool"
  createInferenceWorkerInputValid :: "CreateInferenceWorkerRequest \<Rightarrow> bool"
  inferenceWorkerValid :: "InferenceWorker \<Rightarrow> bool"

fun thrown :: "failure option \<Rightarrow> failure + unit" where
  "thrown None = Inr ()"
| "thrown (Some e) = Inl e"

definition createComputeAPI :: "env \<Rightarrow> unit io" where
  "createComputeAPI E = issue CreateComputeAPI (thrown (createComputeAPI_result E))"

definition list_workers :: "env \<Rightarrow> unit \<Rightarrow> worker list io" where
  "list_workers E api = issue ListCall (list_result E)"

definition pause :: "env \<Rightarrow> unit \<Rightarrow> string \<Rightarrow> unit io" where
  "pause E api n = issue (PauseCall n) (thrown (pause_result E n))"

definition start :: "env \<Rightarrow> unit \<Rightarrow> string \<Rightarrow> unit io" where
  "start E api n = issue (StartCall n) (thrown (start_result E n))"

definition remove_worker :: "env \<Rightarrow> unit \<Rightarrow> string \<Rightarrow> unit io" where
  "remove_worker E api n = issue (RemoveCall n) (thrown (remove_result E n))"

definition shutdown :: "env \<Rightarrow> string \<Rightarrow> unit io" where
  "shutdown E ip = issue (ShutdownCall ip) (thrown (shutdown_result E ip))"

definition getAllModels :: "env \<Rightarrow> string list io" where
  "getAllModels E = issue GetAllModelsCall (getAllModels_result E)"

definition listWorkersController :: "env \<Rightarrow> worker_summary list io" where
  "listWorkersController E = issue ListWorkersControllerCall (listWorkersController_result E)"

definition createInferenceWorkerController ::
  "env \<Rightarrow> string \<Rightarrow> requestedResources \<Rightarrow> string option \<Rightarrow> string io" where
  "createInferenceWorkerController E m r w =
     issue (CreateInferenceWorkerControllerCall m) (createInferenceWorkerController_result E m r w)"

text \<open>
  Modelled from the spec: \<^verbatim>\<open>getWorkerIP\<close> (\<^verbatim>\<open>lib/workers\<close>) is not among the sources. The
  Endpoint Resolver is a pure function of the worker's current address field, absent when
  the worker has not obtained one.
\<close>

definition getWorkerIP :: "worker \<Rightarrow> string option" where
  "getWorkerIP w = address w"

text \<open>
  Modelled from the spec: \<^verbatim>\<open>setupController\<close> (\<^verbatim>\<open>controller/setup\<close>) is not among the
  sources. A bootstrap call with a valid credential payload transitions \<open>SetupState.done\<close>
  to true; the flag is written by the bootstrap only, and a payload that is refused leaves
  it as it was.
\<close>

definition setupController :: "env \<Rightarrow> string \<Rightarrow> unit io" where
  "setupController E file =
     (\<lambda>s. case setupController_result E file of
            Some e \<Rightarrow> (Inl e, s\<lparr>calls := calls s @ [SetupControllerCall file]\<rparr>)
          | None \<Rightarrow>
              (Inr (), s\<lparr>setupDone := True, calls := calls s @ [SetupControllerCall file]\<rparr>))"

section \<open>Setup\<close>

definition setupHandler :: "env \<Rightarrow> SetupRequest \<Rightarrow> unit io" where
  "setupHandler E req =
     (\<lambda>s. if setupDone s then ret () s
          else (case keyFile req of
                  None \<Rightarrow> throw (ConnectError ''Setup not complete.'' FailedPrecondition) s
                | Some file \<Rightarrow> setupController E file s))"

section \<open>Generate text\<close>

text \<open>
  The loop \<^verbatim>\<open>for await (const data of stream) yield ...\<close>: each fragment of the upstream
  sequence becomes one response, lazily; the end or the failure of the upstream sequence
  is the end or the failure of the relayed one.
\<close>

primcorec relay :: "fragment astream \<Rightarrow> ChatCompletionResponse astream" where
  "relay st =
     (case st of
        Done \<Rightarrow> Done
      | Fail e \<Rightarrow> Fail e
      | Item d rest \<Rightarrow> Item \<lparr>resp_text = frag_text d\<rparr> (relay rest))"

text \<open>
  \<^verbatim>\<open>chatCompletion\<close> is an async generator: calling it returns the sequence at once, and
  a rejection of \<^verbatim>\<open>generateController\<close> shows as the failure of that sequence.
\<close>

definition chatCompletion ::
  "env \<Rightarrow> ChatCompletionRequest \<Rightarrow> ChatCompletionResponse astream io" where
  "chatCompletion E req =
     ret (case generateController_result E (cc_workerName req) (cc_messages req) of
            Inl e \<Rightarrow> Fail e
          | Inr st \<Rightarrow> relay st)"

section \<open>List models, list workers, create inference worker\<close>

definition listModels :: "env \<Rightarrow> unit \<Rightarrow> ListModelsResponse io" where
  "listModels E req =
     catch
       (await (getAllModels E) (\<lambda>names.
        ret \<lparr>models = map (\<lambda>n. \<lparr>model_name = n\<rparr>) names\<rparr>))
       (\<lambda>e. throw (ConnectError (message e) Internal))"

definition listWorkers :: "env \<Rightarrow> unit \<Rightarrow> ListWorkersResponse io" where
  "listWorkers E req =
     await (listWorkersController E) (\<lambda>workerList.
     ret \<lparr>workers = workerList\<rparr>)"

definition createInferenceWorker ::
  "env \<Rightarrow> CreateInferenceWorkerRequest \<Rightarrow> InferenceWorker io" where
  "createInferenceWorker E req =
     await (createInferenceWorkerController E (modelName req)
              \<lparr>rr_quantization = quantization req, rr_gpuType = gpuType req,
               rr_gpuCount = gpuCount req\<rparr>
              (ciw_workerName req)) (\<lambda>n.
     ret \<lparr>workerName = n\<rparr>)"

section \<open>Pause, resume and delete\<close>

text \<open>
  After the test \<^verbatim>\<open>!worker || !worker.name\<close> the name is a non-empty string, and inside
  \<^verbatim>\<open>if (getWorkerIP(worker))\<close> so is the address: \<open>the\<close> is applied under these guards
  only, as the source's \<^verbatim>\<open>worker.name\<close> and \<^verbatim>\<open>getWorkerIP(worker)!\<close> are.
\<close>

definition pauseWorker :: "env \<Rightarrow> InferenceWorker \<Rightarrow> InferenceWorker io" where
  "pauseWorker E req =
     await (createComputeAPI E) (\<lambda>api.
     await (list_workers E api) (\<lambda>ws.
       case find (\<lambda>w. name w = Some (workerName req)) ws of
         None \<Rightarrow>
           throw (ConnectError (''Worker '' @ workerName req @ '' does not exist'') NotFound)
       | Some w \<Rightarrow>
           if \<not> truthy (name w) then
             throw (ConnectError (''Worker '' @ workerName req @ '' does not exist'') NotFound)
           else
             await
               (if truthy (getWorkerIP w) then
                  catch (shutdown E (the (getWorkerIP w)))
                    (\<lambda>e. console_error
                       (Line (''Error sending shutdown signal to worker '' @ workerName req
                          @ '': '' @ message e)))
                else ret ()) (\<lambda>u.
             await
               (catch (pause E api (the (name w)))
                  (\<lambda>e. await (console_error (ErrorObject e)) (\<lambda>u.
                     throw (ConnectError
                       (''Failed to pause worker '' @ workerName req @ '': '' @ message e)
                       Internal)))) (\<lambda>u.
             ret \<lparr>workerName = the (name w)\<rparr>))))"

definition resumeWorker :: "env \<Rightarrow> InferenceWorker \<Rightarrow> InferenceWorker io" where
  "resumeWorker E req =
     await (createComputeAPI E) (\<lambda>api.
     await (list_workers E api) (\<lambda>ws.
       case find (\<lambda>w. name w = Some (workerName req)) ws of
         None \<Rightarrow>
           throw (ConnectError (''Worker '' @ workerName req @ '' does not exist'') NotFound)
       | Some w \<Rightarrow>
           if \<not> truthy (name w) then
             throw (ConnectError (''Worker '' @ workerName req @ '' does not exist'') NotFound)
           else if status w \<noteq> Some ''TERMINATED'' then
             throw (ConnectError (''Worker '' @ workerName req @ '' is not paused'')
                      FailedPrecondition)
           else
             await
               (catch (start E api (the (name w)))
                  (\<lambda>e. await (console_error (ErrorObject e)) (\<lambda>u.
                     throw (ConnectError
                       (''Failed to resume worker '' @ workerName req @ '': '' @ message e)
                       Internal)))) (\<lambda>u.
             ret \<lparr>workerName = the (name w)\<rparr>)))"

definition deleteWorker :: "env \<Rightarrow> InferenceWorker \<Rightarrow> InferenceWorker io" where
  "deleteWorker E req =
     await (createComputeAPI E) (\<lambda>api.
     await (list_workers E api) (\<lambda>ws.
       case find (\<lambda>w. name w = Some (workerName req)) ws of
         None \<Rightarrow>
           throw (ConnectError (''Worker '' @ workerName req @ '' does not exist'') NotFound)
       | Some w \<Rightarrow>
           if \<not> truthy (name w) then
             throw (ConnectError (''Worker '' @ workerName req @ '' does not exist'') NotFound)
           else
             await
               (if truthy (getWorkerIP w) then
                  catch (shutdown E (the (getWorkerIP w)))
                    (\<lambda>e. console_error
                       (Line (''Error sending shutdown signal to worker '' @ workerName req
                          @ '': '' @ message e)))
                else ret ()) (\<lambda>u.
             await
               (catch (remove_worker E api (the (name w)))
                  (\<lambda>e. await (console_error (ErrorObject e)) (\<lambda>u.
                     throw (ConnectError
                       (''Failed to delete worker '' @ workerName req @ '': '' @ message e)
                       Internal)))) (\<lambda>u.
             ret \<lparr>workerName = the (name w)\<rparr>))))"

section \<open>The request pipeline\<close>

text \<open>What the middleware reads of Connect's \<^verbatim>\<open>HandlerContext\<close>.\<close>

record handlerContext =
  authenticated :: bool

text \<open>
  Modelled from the spec: \<^verbatim>\<open>validate\<close> (\<^verbatim>\<open>api/validate\<close>) is not among the sources. Schema
  validation rejects malformed input with \<open>InvalidInput\<close> before any side effect, and
  otherwise invokes the wrapped handler.
\<close>

definition validate ::
  "('req \<Rightarrow> bool) \<Rightarrow> ('req \<Rightarrow> handlerContext \<Rightarrow> 'a io) \<Rightarrow> 'req \<Rightarrow> handlerContext \<Rightarrow> 'a io" where
  "validate assertEquals handler req ctx =
     (if assertEquals req then handler req ctx
      else throw (ConnectError ''Invalid input.'' InvalidInput))"

text \<open>
  Modelled from the spec: \<^verbatim>\<open>auth\<close> (\<^verbatim>\<open>api/middleware\<close>) is not among the sources.
  Authentication rejects unauthenticated callers with \<open>Unauthenticated\<close> before any
  business logic executes, and otherwise invokes the wrapped handler.
\<close>

definition auth :: "('req \<Rightarrow> handlerContext \<Rightarrow> 'a io) \<Rightarrow> 'req \<Rightarrow> handlerContext \<Rightarrow> 'a io" where
  "auth handler req ctx =
     (if authenticated ctx then handler req ctx
      else throw (ConnectError ''Unauthenticated.'' Unauthenticated))"

text \<open>
  Modelled from the spec: \<^verbatim>\<open>enforceSetup\<close> (\<^verbatim>\<open>api/middleware\<close>) is not among the sources.
  The setup-readiness gate rejects with \<open>FailedPrecondition\<close> if \<open>SetupState.done\<close> is
  false, and otherwise invokes the wrapped handler.
\<close>

definition enforceSetup :: "('req \<Rightarrow> handlerContext \<Rightarrow> 'a io) \<Rightarrow> 'req \<Rightarrow> handlerContext \<Rightarrow> 'a io" where
  "enforceSetup handler req ctx =
     (\<lambda>s. if setupDone s then handler req ctx s
          else throw (ConnectError ''Setup not complete.'' FailedPrecondition) s)"

text \<open>
  Modelled from the spec: \<^verbatim>\<open>catchErrors\<close> (\<^verbatim>\<open>api/middleware\<close>) is not among the sources.
  Error normalization lets a failure of the boundary's taxonomy through, and catches any
  other failure of the wrapped handler, logs it and converts it to \<open>Internal\<close>.
\<close>

definition catchErrors :: "('req \<Rightarrow> handlerContext \<Rightarrow> 'a io) \<Rightarrow> 'req \<Rightarrow> handlerContext \<Rightarrow> 'a io" where
  "catchErrors handler req ctx =
     catch (handler req ctx)
       (\<lambda>e. case e of
               ConnectError m c \<Rightarrow> throw e
             | JsError m \<Rightarrow>
                 await (console_error (ErrorObject e)) (\<lambda>u.
                 throw (ConnectError m Internal)))"

section \<open>The registered service\<close>

text \<open>
  The object passed to \<^verbatim>\<open>router.service\<close>, one field for each of its keys. The business
  handlers take the request only and ignore the context the pipeline passes along.
\<close>

record service =
  rpc_setup :: "SetupRequest \<Rightarrow> handlerContext \<Rightarrow> unit io"
  rpc_chatCompletion ::
    "ChatCompletionRequest \<Rightarrow> handlerContext \<Rightarrow> ChatCompletionResponse astream io"
  rpc_listModels :: "unit \<Rightarrow> handlerContext \<Rightarrow> ListModelsResponse io"
  rpc_listWorkers :: "unit \<Rightarrow> handlerContext \<Rightarrow> ListWorkersResponse io"
  rpc_createInferenceWorker :: "CreateInferenceWorkerRequest \<Rightarrow> handlerContext \<Rightarrow> InferenceWorker io"
  rpc_pauseInferenceWorker :: "InferenceWorker \<Rightarrow> handlerContext \<Rightarrow> InferenceWorker io"
  rpc_resumeInferenceWorker :: "InferenceWorker \<Rightarrow> handlerContext \<Rightarrow> InferenceWorker io"
  rpc_deleteInferenceWorker :: "InferenceWorker \<Rightarrow> handlerContext \<Rightarrow> InferenceWorker io"

definition haven :: "env \<Rightarrow> service" where
  "haven E =
     \<lparr> rpc_setup =
         catchErrors (validate (setupInputValid E) (auth (\<lambda>req ctx. setupHandler E req))),
       rpc_chatCompletion =
         auth (enforceSetup (\<lambda>req ctx. chatCompletion E req)),
       rpc_listModels =
         catchErrors (validate (listModelsInputValid E)
           (auth (enforceSetup (\<lambda>req ctx. listModels E req)))),
       rpc_listWorkers =
         catchErrors (validate (listWorkersInputValid E)
           (auth (enforceSetup (\<lambda>req ctx. listWorkers E req)))),
       rpc_createInferenceWorker =
         catchErrors (validate (createInferenceWorkerInputValid E)
           (auth (enforceSetup (\<lambda>req ctx. createInferenceWorker E req)))),
       rpc_pauseInferenceWorker =
         catchErrors (validate (inferenceWorkerValid E)
           (auth (enforceSetup (\<lambda>req ctx. pauseWorker E req)))),
       rpc_resumeInferenceWorker =
         catchErrors (validate (inferenceWorkerValid E)
           (auth (enforceSetup (\<lambda>req ctx. resumeWorker E req)))),
       rpc_deleteInferenceWorker =
         catchErrors (validate (inferenceWorkerValid E)
           (auth (enforceSetup (\<lambda>req ctx. deleteWorker E req)))) \<rparr>"

section \<open>Vocabulary of the properties\<close>

text \<open>
  The Compute Fleet API answers with a listing in which no record bears the name \<open>n\<close>.
\<close>

definition unlisted :: "env \<Rightarrow> string \<Rightarrow> bool" where
  "unlisted E n \<longleftrightarrow>
     createComputeAPI_result E = None \<and>
     (case list_result E of
        Inl e \<Rightarrow> False
      | Inr ws \<Rightarrow> list_all (\<lambda>w. name w \<noteq> Some n) ws)"

text \<open>
  The worker \<open>w\<close> exists under the name \<open>n\<close>: the listing is obtained, \<open>w\<close> is the first
  record in it that bears the name \<open>n\<close>, and the name is not the empty string.
\<close>

definition existing :: "env \<Rightarrow> string \<Rightarrow> worker \<Rightarrow> bool" where
  "existing E n w \<longleftrightarrow>
     createComputeAPI_result E = None \<and>
     (case list_result E of
        Inl e \<Rightarrow> False
      | Inr ws \<Rightarrow> find (\<lambda>w'. name w' = Some n) ws = Some w) \<and>
     n \<noteq> []"

text \<open>
  The state after the best-effort shutdown notification that \<open>pauseWorker\<close> and
  \<open>deleteWorker\<close> send for the worker \<open>w\<close>, requested under the name \<open>n\<close>.
\<close>

definition notified :: "env \<Rightarrow> string \<Rightarrow> worker \<Rightarrow> state \<Rightarrow> state" where
  "notified E n w s =
     (if truthy (getWorkerIP w) then
        (case shutdown_result E (the (getWorkerIP w)) of
           None \<Rightarrow> s\<lparr>calls := calls s @ [ShutdownCall (the (getWorkerIP w))]\<rparr>
         | Some e \<Rightarrow>
             s\<lparr>calls := calls s @ [ShutdownCall (the (getWorkerIP w))],
               console := console s @
                 [Line (''Error sending shutdown signal to worker '' @ n @ '': ''
                    @ message e)]\<rparr>)
      else s)"

text \<open>A run that fails with the code \<open>c\<close> and leaves the state \<open>s\<close> as it was.\<close>

definition rejected_with :: "code \<Rightarrow> state \<Rightarrow> (failure + 'a) \<times> state \<Rightarrow> bool" where
  "rejected_with c s r \<longleftrightarrow> outcome_code (fst r) = Some c \<and> snd r = s"

text \<open>The calls a handler added to those issued before it ran.\<close>

definition issued :: "state \<Rightarrow> 'a io \<Rightarrow> call list" where
  "issued s m = drop (length (calls s)) (calls (snd (m s)))"

definition logged :: "state \<Rightarrow> 'a io \<Rightarrow> printed list" where
  "logged s m = drop (length (console s)) (console (snd (m s)))"

text \<open>The first \<open>k\<close> elements a sequence yields.\<close>

fun yielded :: "nat \<Rightarrow> 'a astream \<Rightarrow> 'a list" where
  "yielded 0 st = []"
| "yielded (Suc k) st = (case st of Item x rest \<Rightarrow> x # yielded k rest | _ \<Rightarrow> [])"

text \<open>The finite sequence that yields the elements of a list and then ends or fails.\<close>

fun of_list :: "'a list \<Rightarrow> failure option \<Rightarrow> 'a astream" where
  "of_list [] None = Done"
| "of_list [] (Some e) = Fail e"
| "of_list (x # xs) r = Item x (of_list xs r)"

section \<open>Example collaborators\<close>

definition quiet :: env where
  "quiet =
     \<lparr> createComputeAPI_result = None,
       list_result = Inr [],
       pause_result = (\<lambda>n. None),
       start_result = (\<lambda>n. None),
       remove_result = (\<lambda>n. None),
       shutdown_result = (\<lambda>ip. None),
       getAllModels_result = Inr [],
       listWorkersController_result = Inr [],
       createInferenceWorkerController_result = (\<lambda>m r w. Inr ''w1''),
       generateController_result = (\<lambda>n ms. Inr Done),
       setupController_result = (\<lambda>file. None),
       setupInputValid = (\<lambda>req. True),
       listModelsInputValid = (\<lambda>req. True),
       listWorkersInputValid = (\<lambda>req. True),
       createInferenceWorkerInputValid = (\<lambda>req. True),
       inferenceWorkerValid = (\<lambda>req. True) \<rparr>"

definition fresh :: state where
  "fresh = \<lparr>setupDone = False, calls = [], console = []\<rparr>"

definition ready :: state where
  "ready = \<lparr>setupDone = True, calls = [], console = []\<rparr>"

definition w1 :: worker where
  "w1 = \<lparr>name = Some ''w1'', status = Some ''RUNNING'', address = Some ''10.0.0.5''\<rparr>"

definition w2 :: worker where
  "w2 = \<lparr>name = Some ''w2'', status = Some ''TERMINATED'', address = None\<rparr>"

definition w3 :: worker where
  "w3 = \<lparr>name = Some ''w3'', status = Some ''PROVISIONING'', address = None\<rparr>"

definition unnamed :: worker where
  "unnamed = \<lparr>name = None, status = Some ''RUNNING'', address = None\<rparr>"

definition empty_named :: worker where
  "empty_named = \<lparr>name = Some [], status = Some ''TERMINATED'', address = None\<rparr>"

definition fleet :: env where
  "fleet = quiet\<lparr>list_result := Inr [unnamed, empty_named, w1, w2, w3]\<rparr>"

definition unreachable :: env where
  "unreachable =
     fleet\<lparr>shutdown_result :=
       (\<lambda>ip. Some (ConnectError ''connection refused'' UpstreamUnavailable))\<rparr>"

definition stubborn :: env where
  "stubborn = unreachable\<lparr>pause_result := (\<lambda>n. Some (JsError ''quota exceeded''))\<rparr>"

definition caller :: handlerContext where
  "caller = \<lparr>authenticated = True\<rparr>"

definition stranger :: handlerContext where
  "stranger = \<lparr>authenticated = False\<rparr>"

definition chat_request :: ChatCompletionRequest where
  "chat_request = \<lparr>cc_workerName = ''w1'', cc_messages = []\<rparr>"

definition create_request :: CreateInferenceWorkerRequest where
  "create_request =
     \<lparr>modelName = ''llama-7b'', ciw_workerName = Some ''w1'', quantization = ''int8'',
      gpuType = ''A100'', gpuCount = 1\<rparr>"

definition chatty :: env where
  "chatty =
     quiet\<lparr>generateController_result :=
       (\<lambda>n ms. Inr (of_list [\<lparr>frag_text = ''Hel''\<rparr>, \<lparr>frag_text = ''lo''\<rparr>] None))\<rparr>"

definition broken_generation :: env where
  "broken_generation =
     quiet\<lparr>generateController_result := (\<lambda>n ms. Inl (JsError ''socket hang up''))\<rparr>"

definition outage :: env where
  "outage =
     quiet\<lparr>list_result := Inl (JsError ''ECONNRESET''),
           listWorkersController_result := Inl (JsError ''ECONNRESET'')\<rparr>"

definition strict :: env where
  "strict = quiet\<lparr>setupInputValid := (\<lambda>req. False)\<rparr>"

section \<open>Stepping through a handler\<close>

lemmas io_defs = ret_def throw_def await_def catch_def console_error_def issue_def

lemmas fleet_defs =
  createComputeAPI_def list_workers_def pause_def start_def remove_worker_def shutdown_def

lemma find_unlisted:
  "list_all (\<lambda>w. name w \<noteq> Some n) ws \<Longrightarrow> find (\<lambda>w. name w = Some n) ws = None"
  by (simp add: find_None_iff list_all_iff)

lemma existingD:
  assumes "existing E n w"
  obtains ws where "createComputeAPI_result E = None" and "list_result E = Inr ws"
    and "find (\<lambda>w'. name w' = Some n) ws = Some w" and "name w = Some n" and "n \<noteq> []"
  using assms by (auto simp: existing_def find_Some_iff split: sum.splits)

lemma find_name: "find (\<lambda>w'. name w' = Some n) ws = Some w \<Longrightarrow> name w = Some n"
  by (auto simp: find_Some_iff)

lemma await_createComputeAPI:
  "createComputeAPI_result E = None \<Longrightarrow>
   await (createComputeAPI E) k s = k () (s\<lparr>calls := calls s @ [CreateComputeAPI]\<rparr>)"
  by (simp add: io_defs fleet_defs)

lemma await_list_workers:
  "list_result E = Inr ws \<Longrightarrow>
   await (list_workers E api) k s = k ws (s\<lparr>calls := calls s @ [ListCall]\<rparr>)"
  by (simp add: io_defs fleet_defs)

lemmas lookup_step = await_createComputeAPI await_list_workers

lemma issued_append [simp]:
  "calls (snd (m s)) = calls s @ cs \<Longrightarrow> issued s m = cs"
  by (simp add: issued_def)

lemma logged_append [simp]:
  "console (snd (m s)) = console s @ ls \<Longrightarrow> logged s m = ls"
  by (simp add: logged_def)

lemma await_catch_issue:
  "await (catch (issue c (thrown r))
            (\<lambda>e. await (console_error (l e)) (\<lambda>u. throw (f e)))) k s =
   (case r of
      None \<Rightarrow> k () (s\<lparr>calls := calls s @ [c]\<rparr>)
    | Some e \<Rightarrow> (Inl (f e), s\<lparr>calls := calls s @ [c], console := console s @ [l e]\<rparr>))"
  by (simp add: io_defs split: option.split)

lemma await_notify:
  "await (if truthy (getWorkerIP w)
          then catch (shutdown E (the (getWorkerIP w)))
                 (\<lambda>e. console_error
                    (Line (''Error sending shutdown signal to worker '' @ n @ '': ''
                       @ message e)))
          else ret ()) k s =
   k () (notified E n w s)"
  by (simp add: io_defs shutdown_def notified_def split: option.split)

lemma pause_existing:
  assumes "existing E (workerName req) w"
  shows "pauseWorker E req s =
     (let s1 = notified E (workerName req) w (s\<lparr>calls := calls s @ [CreateComputeAPI, ListCall]\<rparr>)
      in case pause_result E (workerName req) of
           None \<Rightarrow>
             (Inr \<lparr>workerName = workerName req\<rparr>,
              s1\<lparr>calls := calls s1 @ [PauseCall (workerName req)]\<rparr>)
         | Some e \<Rightarrow>
             (Inl (ConnectError
                 (''Failed to pause worker '' @ workerName req @ '': '' @ message e) Internal),
              s1\<lparr>calls := calls s1 @ [PauseCall (workerName req)],
                 console := console s1 @ [ErrorObject e]\<rparr>))"
proof -
  from assms(1) obtain ws where api: "createComputeAPI_result E = None"
    and ls: "list_result E = Inr ws"
    and fd: "find (\<lambda>w'. name w' = Some (workerName req)) ws = Some w"
    and nm: "name w = Some (workerName req)" and ne: "workerName req \<noteq> []"
    by (rule existingD)
  show ?thesis
    unfolding pauseWorker_def pause_def
    by (simp add: lookup_step api ls fd nm ne await_notify await_catch_issue ret_def
        Let_def split: option.split)
qed

lemma delete_existing:
  assumes "existing E (workerName req) w"
  shows "deleteWorker E req s =
     (let s1 = notified E (workerName req) w (s\<lparr>calls := calls s @ [CreateComputeAPI, ListCall]\<rparr>)
      in case remove_result E (workerName req) of
           None \<Rightarrow>
             (Inr \<lparr>workerName = workerName req\<rparr>,
              s1\<lparr>calls := calls s1 @ [RemoveCall (workerName req)]\<rparr>)
         | Some e \<Rightarrow>
             (Inl (ConnectError
                 (''Failed to delete worker '' @ workerName req @ '': '' @ message e) Internal),
              s1\<lparr>calls := calls s1 @ [RemoveCall (workerName req)],
                 console := console s1 @ [ErrorObject e]\<rparr>))"
proof -
  from assms(1) obtain ws where api: "createComputeAPI_result E = None"
    and ls: "list_result E = Inr ws"
    and fd: "find (\<lambda>w'. name w' = Some (workerName req)) ws = Some w"
    and nm: "name w = Some (workerName req)" and ne: "workerName req \<noteq> []"
    by (rule existingD)
  show ?thesis
    unfolding deleteWorker_def remove_worker_def
    by (simp add: lookup_step api ls fd nm ne await_notify await_catch_issue ret_def
        Let_def split: option.split)
qed

lemma calls_notified:
  "calls (notified E n w s) =
   calls s @ (if truthy (getWorkerIP w) then [ShutdownCall (the (getWorkerIP w))] else [])"
  by (simp add: notified_def split: option.split)

lemma console_notified:
  "console (notified E n w s) =
   console s @
   (if truthy (getWorkerIP w) then
      (case shutdown_result E (the (getWorkerIP w)) of
         None \<Rightarrow> []
       | Some e \<Rightarrow>
           [Line (''Error sending shutdown signal to worker '' @ n @ '': '' @ message e)])
    else [])"
  by (simp add: notified_def split: option.split)

lemmas example_defs =
  quiet_def fleet_def unreachable_def stubborn_def fresh_def ready_def w1_def w2_def w3_def
  unnamed_def empty_named_def

section \<open>Stepping through the pipeline\<close>

lemmas pipeline_defs = validate_def auth_def enforceSetup_def catchErrors_def

lemma enforceSetup_rejects:
  "\<not> setupDone s \<Longrightarrow>
   enforceSetup h req ctx s = (Inl (ConnectError ''Setup not complete.'' FailedPrecondition), s)"
  by (simp add: enforceSetup_def throw_def)

lemma enforceSetup_passes: "setupDone s \<Longrightarrow> enforceSetup h req ctx s = h req ctx s"
  by (simp add: enforceSetup_def)

lemma gated_rejects:
  assumes "V req" and "authenticated ctx" and "\<not> setupDone s"
  shows "catchErrors (validate V (auth (enforceSetup h))) req ctx s =
         (Inl (ConnectError ''Setup not complete.'' FailedPrecondition), s)"
  using assms by (simp add: pipeline_defs io_defs)

lemma gated_passes:
  assumes "V req" and "authenticated ctx" and "setupDone s"
  shows "catchErrors (validate V (auth (enforceSetup h))) req ctx s = catchErrors h req ctx s"
  using assms by (simp add: pipeline_defs io_defs)

lemma catchErrors_normalizes: "fst (catchErrors h req ctx s) \<noteq> Inl (JsError m)"
  by (auto simp: catchErrors_def io_defs split: prod.splits sum.splits failure.splits)

lemma catchErrors_internal:
  "fst (h req ctx s) = Inl (JsError m) \<Longrightarrow>
   fst (catchErrors h req ctx s) = Inl (ConnectError m Internal)"
  by (auto simp: catchErrors_def io_defs split: prod.splits sum.splits failure.splits)

section \<open>Stepping through the relay\<close>

lemma relay_simps [simp]:
  "relay Done = Done"
  "relay (Fail e) = Fail e"
  "relay (Item d rest) = Item \<lparr>resp_text = frag_text d\<rparr> (relay rest)"
  by (subst relay.code, simp)+

lemma yielded_relay:
  "map resp_text (yielded k (relay st)) = map frag_text (yielded k st)"
proof (induction k arbitrary: st)
  case 0
  show ?case by simp
next
  case (Suc k)
  show ?case
    by (cases st) (simp_all add: Suc.IH)
qed

lemma relay_of_list:
  "relay (of_list ds r) = of_list (map (\<lambda>d. \<lparr>resp_text = frag_text d\<rparr>) ds) r"
proof (induction ds)
  case Nil
  show ?case by (cases r) simp_all
next
  case (Cons d ds)
  then show ?case by simp
qed

section \<open>The pipeline of the unary operations\<close>

text \<open>
  C1, as amended. Each of the six unary operations behind the gate (\<open>listModels\<close>,
  \<open>listWorkers\<close>, \<open>createInferenceWorker\<close>, \<open>pauseWorker\<close>, \<open>resumeWorker\<close>,
  \<open>deleteWorker\<close>) is registered as its business handler wrapped by schema validation,
  then authentication, then the setup-readiness gate, with error normalization enclosing
  all of them. No failure outside the taxonomy leaves such a handler, and a raw failure of
  the business handler reaches the caller as \<open>Internal\<close>. The streaming operation
  \<open>chatCompletion\<close> is registered with authentication and the gate only: it has neither
  schema validation nor error normalization, and a call that passes both is the call of
  the business handler itself.
\<close>

theorem unary_operations_normalized:
  "rpc_listModels (haven E) =
     catchErrors (validate (listModelsInputValid E)
       (auth (enforceSetup (\<lambda>req ctx. listModels E req)))) \<and>
   rpc_listWorkers (haven E) =
     catchErrors (validate (listWorkersInputValid E)
       (auth (enforceSetup (\<lambda>req ctx. listWorkers E req)))) \<and>
   rpc_createInferenceWorker (haven E) =
     catchErrors (validate (createInferenceWorkerInputValid E)
       (auth (enforceSetup (\<lambda>req ctx. createInferenceWorker E req)))) \<and>
   rpc_pauseInferenceWorker (haven E) =
     catchErrors (validate (inferenceWorkerValid E)
       (auth (enforceSetup (\<lambda>req ctx. pauseWorker E req)))) \<and>
   rpc_resumeInferenceWorker (haven E) =
     catchErrors (validate (inferenceWorkerValid E)
       (auth (enforceSetup (\<lambda>req ctx. resumeWorker E req)))) \<and>
   rpc_deleteInferenceWorker (haven E) =
     catchErrors (validate (inferenceWorkerValid E)
       (auth (enforceSetup (\<lambda>req ctx. deleteWorker E req)))) \<and>
   rpc_chatCompletion (haven E) = auth (enforceSetup (\<lambda>req ctx. chatCompletion E req)) \<and>
   fst (rpc_listModels (haven E) e1 ctx s) \<noteq> Inl (JsError m) \<and>
   fst (rpc_listWorkers (haven E) e2 ctx s) \<noteq> Inl (JsError m) \<and>
   fst (rpc_createInferenceWorker (haven E) c ctx s) \<noteq> Inl (JsError m) \<and>
   fst (rpc_pauseInferenceWorker (haven E) w ctx s) \<noteq> Inl (JsError m) \<and>
   fst (rpc_resumeInferenceWorker (haven E) w ctx s) \<noteq> Inl (JsError m) \<and>
   fst (rpc_deleteInferenceWorker (haven E) w ctx s) \<noteq> Inl (JsError m) \<and>
   (authenticated ctx \<and> setupDone s \<longrightarrow>
      (listModelsInputValid E e1 \<and> fst (listModels E e1 s) = Inl (JsError m) \<longrightarrow>
         fst (rpc_listModels (haven E) e1 ctx s) = Inl (ConnectError m Internal)) \<and>
      (listWorkersInputValid E e2 \<and> fst (listWorkers E e2 s) = Inl (JsError m) \<longrightarrow>
         fst (rpc_listWorkers (haven E) e2 ctx s) = Inl (ConnectError m Internal)) \<and>
      (createInferenceWorkerInputValid E c \<and>
       fst (createInferenceWorker E c s) = Inl (JsError m) \<longrightarrow>
         fst (rpc_createInferenceWorker (haven E) c ctx s) = Inl (ConnectError m Internal)) \<and>
      (inferenceWorkerValid E w \<and> fst (pauseWorker E w s) = Inl (JsError m) \<longrightarrow>
         fst (rpc_pauseInferenceWorker (haven E) w ctx s) = Inl (ConnectError m Internal)) \<and>
      (inferenceWorkerValid E w \<and> fst (resumeWorker E w s) = Inl (JsError m) \<longrightarrow>
         fst (rpc_resumeInferenceWorker (haven E) w ctx s) = Inl (ConnectError m Internal)) \<and>
      (inferenceWorkerValid E w \<and> fst (deleteWorker E w s) = Inl (JsError m) \<longrightarrow>
         fst (rpc_deleteInferenceWorker (haven E) w ctx s) = Inl (ConnectError m Internal)) \<and>
      rpc_chatCompletion (haven E) g ctx s = chatCompletion E g s)"
proof -
  have internal:
    "fst (catchErrors (validate V (auth (enforceSetup (\<lambda>req ctx. h req)))) req ctx s) =
       Inl (ConnectError m Internal)"
    if "authenticated ctx" and "setupDone s" and "V req" and "fst (h req s) = Inl (JsError m)"
    for V and h :: "'r \<Rightarrow> 'b io" and req
    using that by (simp add: gated_passes catchErrors_internal)
  show ?thesis
    by (simp add: haven_def catchErrors_normalizes internal)
      (simp add: auth_def enforceSetup_def)
qed

theorem unary_operations_normalized_witness:
  "authenticated caller \<and> setupDone ready \<and>
   inferenceWorkerValid outage \<lparr>workerName = ''w1''\<rparr> \<and>
   fst (pauseWorker outage \<lparr>workerName = ''w1''\<rparr> ready) = Inl (JsError ''ECONNRESET'') \<and>
   fst (rpc_pauseInferenceWorker (haven outage) \<lparr>workerName = ''w1''\<rparr> caller ready) =
     Inl (ConnectError ''ECONNRESET'' Internal) \<and>
   listWorkersInputValid outage () \<and>
   fst (listWorkers outage () ready) = Inl (JsError ''ECONNRESET'') \<and>
   fst (rpc_listWorkers (haven outage) () caller ready) =
     Inl (ConnectError ''ECONNRESET'' Internal) \<and>
   rpc_chatCompletion (haven chatty) chat_request caller ready =
     chatCompletion chatty chat_request ready"
proof -
  have a: "authenticated caller" by (simp add: caller_def)
  have b: "setupDone ready" by (simp add: ready_def)
  have v: "inferenceWorkerValid outage \<lparr>workerName = ''w1''\<rparr>"
    by (simp add: outage_def quiet_def)
  have v': "listWorkersInputValid outage ()"
    by (simp add: outage_def quiet_def)
  have p: "fst (pauseWorker outage \<lparr>workerName = ''w1''\<rparr> ready) = Inl (JsError ''ECONNRESET'')"
    by (simp add: pauseWorker_def io_defs fleet_defs outage_def quiet_def)
  have l: "fst (listWorkers outage () ready) = Inl (JsError ''ECONNRESET'')"
    by (simp add: listWorkers_def listWorkersController_def io_defs outage_def quiet_def)
  note gated = unary_operations_normalized [THEN conjunct2, THEN conjunct2, THEN conjunct2, THEN conjunct2,
      THEN conjunct2, THEN conjunct2, THEN conjunct2, THEN conjunct2, THEN conjunct2,
      THEN conjunct2, THEN conjunct2, THEN conjunct2, THEN conjunct2, rule_format,
      OF conjI [OF a b]]
  have p': "fst (rpc_pauseInferenceWorker (haven outage) \<lparr>workerName = ''w1''\<rparr> caller ready) =
     Inl (ConnectError ''ECONNRESET'' Internal)"
    by (rule gated [THEN conjunct2, THEN conjunct2, THEN conjunct2, THEN conjunct1,
          rule_format, OF conjI [OF v p]])
  have l': "fst (rpc_listWorkers (haven outage) () caller ready) =
     Inl (ConnectError ''ECONNRESET'' Internal)"
    by (rule gated [THEN conjunct2, THEN conjunct1, rule_format, OF conjI [OF v' l]])
  have g: "rpc_chatCompletion (haven chatty) chat_request caller ready =
     chatCompletion chatty chat_request ready"
    by (rule gated [THEN conjunct2, THEN conjunct2, THEN conjunct2, THEN conjunct2,
          THEN conjunct2, THEN conjunct2])
  show ?thesis
    by (intro conjI a b v v' p l p' l' g)
qed

text \<open>
  C1, as stated, fails for \<open>chatCompletion\<close>: when \<^verbatim>\<open>generateController\<close> rejects with a
  raw error, the registered handler hands the caller a sequence that fails with that same
  raw error, not with \<open>Internal\<close>.
\<close>

theorem chat_completion_not_normalized:
  "rpc_chatCompletion (haven broken_generation) chat_request caller ready =
     (Inr (Fail (JsError ''socket hang up'')), ready)"
  by (simp add: haven_def auth_def enforceSetup_def chatCompletion_def ret_def
      broken_generation_def caller_def ready_def chat_request_def)

section \<open>Workers that are not listed\<close>

text \<open>
  C2. When the listing of the Compute Fleet API holds no record with the requested name,
  each of \<open>pauseWorker\<close>, \<open>resumeWorker\<close> and \<open>deleteWorker\<close> fails with \<open>NotFound\<close>,
  having issued the two read-only calls and nothing else: no shutdown notification, no
  pause, no start and no remove.
\<close>

theorem absent_worker_not_found:
  assumes "unlisted E (workerName req)"
  shows "pauseWorker E req s =
           (Inl (ConnectError (''Worker '' @ workerName req @ '' does not exist'') NotFound),
            s\<lparr>calls := calls s @ [CreateComputeAPI, ListCall]\<rparr>) \<and>
         resumeWorker E req s =
           (Inl (ConnectError (''Worker '' @ workerName req @ '' does not exist'') NotFound),
            s\<lparr>calls := calls s @ [CreateComputeAPI, ListCall]\<rparr>) \<and>
         deleteWorker E req s =
           (Inl (ConnectError (''Worker '' @ workerName req @ '' does not exist'') NotFound),
            s\<lparr>calls := calls s @ [CreateComputeAPI, ListCall]\<rparr>) \<and>
         filter mutating (issued s (pauseWorker E req)) = [] \<and>
         filter mutating (issued s (resumeWorker E req)) = [] \<and>
         filter mutating (issued s (deleteWorker E req)) = []"
proof -
  from assms obtain ws where api: "createComputeAPI_result E = None"
    and ls: "list_result E = Inr ws"
    and no: "find (\<lambda>w. name w = Some (workerName req)) ws = None"
    by (auto simp: unlisted_def find_unlisted split: sum.splits)
  have p: "pauseWorker E req s =
           (Inl (ConnectError (''Worker '' @ workerName req @ '' does not exist'') NotFound),
            s\<lparr>calls := calls s @ [CreateComputeAPI, ListCall]\<rparr>)"
    unfolding pauseWorker_def by (simp add: lookup_step api ls no throw_def)
  have r: "resumeWorker E req s =
           (Inl (ConnectError (''Worker '' @ workerName req @ '' does not exist'') NotFound),
            s\<lparr>calls := calls s @ [CreateComputeAPI, ListCall]\<rparr>)"
    unfolding resumeWorker_def by (simp add: lookup_step api ls no throw_def)
  have d: "deleteWorker E req s =
           (Inl (ConnectError (''Worker '' @ workerName req @ '' does not exist'') NotFound),
            s\<lparr>calls := calls s @ [CreateComputeAPI, ListCall]\<rparr>)"
    unfolding deleteWorker_def by (simp add: lookup_step api ls no throw_def)
  show ?thesis by (simp add: p r d)
qed

theorem absent_worker_not_found_witness:
  "unlisted (quiet\<lparr>list_result := Inr [w1]\<rparr>) (workerName \<lparr>workerName = ''w2''\<rparr>) \<and>
   deleteWorker (quiet\<lparr>list_result := Inr [w1]\<rparr>) \<lparr>workerName = ''w2''\<rparr> fresh =
     (Inl (ConnectError ''Worker w2 does not exist'' NotFound),
      fresh\<lparr>calls := [CreateComputeAPI, ListCall]\<rparr>)"
proof -
  have h: "unlisted (quiet\<lparr>list_result := Inr [w1]\<rparr>) (workerName \<lparr>workerName = ''w2''\<rparr>)"
    by (simp add: unlisted_def quiet_def w1_def)
  show ?thesis using h absent_worker_not_found [OF h, of fresh] by (simp add: fresh_def)
qed

section \<open>Resuming a worker that is not paused\<close>

text \<open>
  C3. For an existing worker whose listed status is not \<^verbatim>\<open>TERMINATED\<close> (the paused
  state), \<open>resumeWorker\<close> fails with \<open>FailedPrecondition\<close>, having issued the two
  read-only calls only: no start call reaches the Compute Fleet API.
\<close>

theorem resume_requires_paused:
  assumes "existing E (workerName req) w" and "status w \<noteq> Some ''TERMINATED''"
  shows "resumeWorker E req s =
           (Inl (ConnectError (''Worker '' @ workerName req @ '' is not paused'')
                   FailedPrecondition),
            s\<lparr>calls := calls s @ [CreateComputeAPI, ListCall]\<rparr>) \<and>
         filter mutating (issued s (resumeWorker E req)) = []"
proof -
  from assms(1) obtain ws where api: "createComputeAPI_result E = None"
    and ls: "list_result E = Inr ws"
    and fd: "find (\<lambda>w'. name w' = Some (workerName req)) ws = Some w"
    and nm: "name w = Some (workerName req)" and ne: "workerName req \<noteq> []"
    by (rule existingD)
  have r: "resumeWorker E req s =
           (Inl (ConnectError (''Worker '' @ workerName req @ '' is not paused'')
                   FailedPrecondition),
            s\<lparr>calls := calls s @ [CreateComputeAPI, ListCall]\<rparr>)"
    unfolding resumeWorker_def using assms(2)
    by (simp add: lookup_step api ls fd nm ne throw_def)
  show ?thesis by (simp add: r)
qed

theorem resume_requires_paused_witness:
  "existing fleet (workerName \<lparr>workerName = ''w1''\<rparr>) w1 \<and>
   status w1 \<noteq> Some ''TERMINATED'' \<and>
   resumeWorker fleet \<lparr>workerName = ''w1''\<rparr> ready =
     (Inl (ConnectError ''Worker w1 is not paused'' FailedPrecondition),
      ready\<lparr>calls := [CreateComputeAPI, ListCall]\<rparr>)"
proof -
  have h: "existing fleet (workerName \<lparr>workerName = ''w1''\<rparr>) w1"
    by (simp add: existing_def example_defs)
  have t: "status w1 \<noteq> Some ''TERMINATED''"
    by (simp add: w1_def)
  show ?thesis using h t resume_requires_paused [OF h t, of ready] by (simp add: ready_def)
qed

section \<open>The bootstrap operation\<close>

text \<open>
  C4. \<open>setupHandler\<close> is idempotent. Once setup is done it returns success and leaves the
  state as it is, whatever the request. While setup is not done, a request without a key
  file fails with \<open>FailedPrecondition\<close> and leaves the state as it is, and a request whose
  key file is accepted completes the setup. After any successful call, a further call,
  with or without a key file, returns success and changes nothing.
\<close>

theorem setup_idempotent:
  "(setupDone s \<longrightarrow> setupHandler E req s = (Inr (), s)) \<and>
   (\<not> setupDone s \<and> keyFile req = None \<longrightarrow>
      setupHandler E req s =
        (Inl (ConnectError ''Setup not complete.'' FailedPrecondition), s)) \<and>
   (\<not> setupDone s \<and> keyFile req = Some file \<and> setupController_result E file = None \<longrightarrow>
      setupHandler E req s =
        (Inr (), s\<lparr>setupDone := True, calls := calls s @ [SetupControllerCall file]\<rparr>)) \<and>
   (fst (setupHandler E req s) = Inr () \<longrightarrow>
      setupHandler E req' (snd (setupHandler E req s)) =
        (Inr (), snd (setupHandler E req s)))"
  by (auto simp: setupHandler_def setupController_def io_defs split: option.splits)

theorem setup_idempotent_witness:
  "setupDone ready \<and>
   setupHandler quiet \<lparr>keyFile = Some ''other''\<rparr> ready = (Inr (), ready) \<and>
   \<not> setupDone fresh \<and> keyFile \<lparr>keyFile = None\<rparr> = None \<and>
   setupHandler quiet \<lparr>keyFile = None\<rparr> fresh =
     (Inl (ConnectError ''Setup not complete.'' FailedPrecondition), fresh) \<and>
   keyFile \<lparr>keyFile = Some ''key''\<rparr> = Some ''key'' \<and>
   setupController_result quiet ''key'' = None \<and>
   setupHandler quiet \<lparr>keyFile = Some ''key''\<rparr> fresh =
     (Inr (), fresh\<lparr>setupDone := True, calls := [SetupControllerCall ''key'']\<rparr>) \<and>
   setupHandler quiet \<lparr>keyFile = None\<rparr>
       (fresh\<lparr>setupDone := True, calls := [SetupControllerCall ''key'']\<rparr>) =
     (Inr (), fresh\<lparr>setupDone := True, calls := [SetupControllerCall ''key'']\<rparr>)"
proof -
  have a: "setupDone ready" by (simp add: ready_def)
  have b: "\<not> setupDone fresh" by (simp add: fresh_def)
  have c: "setupController_result quiet ''key'' = None" by (simp add: quiet_def)
  have ping: "setupHandler quiet \<lparr>keyFile = Some ''other''\<rparr> ready = (Inr (), ready)"
    using a setup_idempotent [of ready quiet "\<lparr>keyFile = Some ''other''\<rparr>"] by simp
  have probe: "setupHandler quiet \<lparr>keyFile = None\<rparr> fresh =
      (Inl (ConnectError ''Setup not complete.'' FailedPrecondition), fresh)"
    using b setup_idempotent [of fresh quiet "\<lparr>keyFile = None\<rparr>"] by simp
  have first: "setupHandler quiet \<lparr>keyFile = Some ''key''\<rparr> fresh =
      (Inr (), fresh\<lparr>setupDone := True, calls := [SetupControllerCall ''key'']\<rparr>)"
    using b c setup_idempotent [of fresh quiet "\<lparr>keyFile = Some ''key''\<rparr>" "''key''"]
    by (simp add: fresh_def)
  have "setupHandler quiet \<lparr>keyFile = None\<rparr>
          (snd (setupHandler quiet \<lparr>keyFile = Some ''key''\<rparr> fresh)) =
        (Inr (), snd (setupHandler quiet \<lparr>keyFile = Some ''key''\<rparr> fresh))"
    using setup_idempotent [of fresh quiet "\<lparr>keyFile = Some ''key''\<rparr>" "''key''" "\<lparr>keyFile = None\<rparr>"]
    by (simp add: first)
  then have second: "setupHandler quiet \<lparr>keyFile = None\<rparr>
       (fresh\<lparr>setupDone := True, calls := [SetupControllerCall ''key'']\<rparr>) =
     (Inr (), fresh\<lparr>setupDone := True, calls := [SetupControllerCall ''key'']\<rparr>)"
    by (simp add: first)
  show ?thesis
    by (intro conjI a b c ping probe first second) simp_all
qed

section \<open>The setup-readiness gate\<close>

text \<open>
  C5. The gate is the innermost stage, so the calls that come to it are those that pass
  authentication and, where the operation has one, schema validation. For every gated
  operation such a call, made while setup is not done, fails with \<open>FailedPrecondition\<close>,
  the state untouched and the wrapped handler \<open>h\<close>, whichever it is, not consulted; once
  setup is done the same call is the call of the business handler (seen through error
  normalization for the unary operations).
\<close>

theorem gate_behind_validation_and_authentication:
  assumes "authenticated ctx"
    and "listModelsInputValid E e1" and "listWorkersInputValid E e2"
    and "createInferenceWorkerInputValid E c" and "inferenceWorkerValid E w"
  shows "(\<not> setupDone s \<longrightarrow>
            rejected_with FailedPrecondition s (enforceSetup h rq ctx s) \<and>
            rejected_with FailedPrecondition s (rpc_chatCompletion (haven E) g ctx s) \<and>
            rejected_with FailedPrecondition s (rpc_listModels (haven E) e1 ctx s) \<and>
            rejected_with FailedPrecondition s (rpc_listWorkers (haven E) e2 ctx s) \<and>
            rejected_with FailedPrecondition s (rpc_createInferenceWorker (haven E) c ctx s) \<and>
            rejected_with FailedPrecondition s (rpc_pauseInferenceWorker (haven E) w ctx s) \<and>
            rejected_with FailedPrecondition s (rpc_resumeInferenceWorker (haven E) w ctx s) \<and>
            rejected_with FailedPrecondition s (rpc_deleteInferenceWorker (haven E) w ctx s)) \<and>
         (setupDone s \<longrightarrow>
            enforceSetup h rq ctx s = h rq ctx s \<and>
            rpc_chatCompletion (haven E) g ctx s = chatCompletion E g s \<and>
            rpc_listModels (haven E) e1 ctx s =
              catchErrors (\<lambda>req ctx. listModels E req) e1 ctx s \<and>
            rpc_listWorkers (haven E) e2 ctx s =
              catchErrors (\<lambda>req ctx. listWorkers E req) e2 ctx s \<and>
            rpc_createInferenceWorker (haven E) c ctx s =
              catchErrors (\<lambda>req ctx. createInferenceWorker E req) c ctx s \<and>
            rpc_pauseInferenceWorker (haven E) w ctx s =
              catchErrors (\<lambda>req ctx. pauseWorker E req) w ctx s \<and>
            rpc_resumeInferenceWorker (haven E) w ctx s =
              catchErrors (\<lambda>req ctx. resumeWorker E req) w ctx s \<and>
            rpc_deleteInferenceWorker (haven E) w ctx s =
              catchErrors (\<lambda>req ctx. deleteWorker E req) w ctx s)"
proof (intro conjI impI)
  assume n: "\<not> setupDone s"
  show "rejected_with FailedPrecondition s (enforceSetup h rq ctx s)"
    using n by (simp add: enforceSetup_rejects rejected_with_def)
  show "rejected_with FailedPrecondition s (rpc_chatCompletion (haven E) g ctx s)"
    using n assms(1) by (simp add: haven_def auth_def enforceSetup_rejects rejected_with_def)
  show "rejected_with FailedPrecondition s (rpc_listModels (haven E) e1 ctx s)"
    using n assms by (simp add: haven_def gated_rejects rejected_with_def)
  show "rejected_with FailedPrecondition s (rpc_listWorkers (haven E) e2 ctx s)"
    using n assms by (simp add: haven_def gated_rejects rejected_with_def)
  show "rejected_with FailedPrecondition s (rpc_createInferenceWorker (haven E) c ctx s)"
    using n assms by (simp add: haven_def gated_rejects rejected_with_def)
  show "rejected_with FailedPrecondition s (rpc_pauseInferenceWorker (haven E) w ctx s)"
    using n assms by (simp add: haven_def gated_rejects rejected_with_def)
  show "rejected_with FailedPrecondition s (rpc_resumeInferenceWorker (haven E) w ctx s)"
    using n assms by (simp add: haven_def gated_rejects rejected_with_def)
  show "rejected_with FailedPrecondition s (rpc_deleteInferenceWorker (haven E) w ctx s)"
    using n assms by (simp add: haven_def gated_rejects rejected_with_def)
next
  assume d: "setupDone s"
  show "enforceSetup h rq ctx s = h rq ctx s"
    using d by (rule enforceSetup_passes)
  show "rpc_chatCompletion (haven E) g ctx s = chatCompletion E g s"
    using d assms(1) by (simp add: haven_def auth_def enforceSetup_passes)
  show "rpc_listModels (haven E) e1 ctx s =
      catchErrors (\<lambda>req ctx. listModels E req) e1 ctx s"
    using d assms by (simp add: haven_def gated_passes)
  show "rpc_listWorkers (haven E) e2 ctx s =
      catchErrors (\<lambda>req ctx. listWorkers E req) e2 ctx s"
    using d assms by (simp add: haven_def gated_passes)
  show "rpc_createInferenceWorker (haven E) c ctx s =
      catchErrors (\<lambda>req ctx. createInferenceWorker E req) c ctx s"
    using d assms by (simp add: haven_def gated_passes)
  show "rpc_pauseInferenceWorker (haven E) w ctx s =
      catchErrors (\<lambda>req ctx. pauseWorker E req) w ctx s"
    using d assms by (simp add: haven_def gated_passes)
  show "rpc_resumeInferenceWorker (haven E) w ctx s =
      catchErrors (\<lambda>req ctx. resumeWorker E req) w ctx s"
    using d assms by (simp add: haven_def gated_passes)
  show "rpc_deleteInferenceWorker (haven E) w ctx s =
      catchErrors (\<lambda>req ctx. deleteWorker E req) w ctx s"
    using d assms by (simp add: haven_def gated_passes)
qed

theorem gate_behind_validation_and_authentication_witness:
  "authenticated caller \<and>
   listModelsInputValid quiet () \<and> listWorkersInputValid quiet () \<and>
   createInferenceWorkerInputValid quiet create_request \<and>
   inferenceWorkerValid quiet \<lparr>workerName = ''w1''\<rparr> \<and>
   \<not> setupDone fresh \<and>
   rejected_with FailedPrecondition fresh
     (rpc_chatCompletion (haven quiet) chat_request caller fresh) \<and>
   rejected_with FailedPrecondition fresh
     (rpc_pauseInferenceWorker (haven quiet) \<lparr>workerName = ''w1''\<rparr> caller fresh) \<and>
   setupDone ready \<and>
   rpc_listModels (haven quiet) () caller ready =
     (Inr \<lparr>models = []\<rparr>, ready\<lparr>calls := [GetAllModelsCall]\<rparr>) \<and>
   rpc_createInferenceWorker (haven quiet) create_request caller ready =
     (Inr \<lparr>workerName = ''w1''\<rparr>,
      ready\<lparr>calls := [CreateInferenceWorkerControllerCall ''llama-7b'']\<rparr>)"
proof -
  have a: "authenticated caller" by (simp add: caller_def)
  have v1: "listModelsInputValid quiet ()" by (simp add: quiet_def)
  have v2: "listWorkersInputValid quiet ()" by (simp add: quiet_def)
  have v3: "createInferenceWorkerInputValid quiet create_request" by (simp add: quiet_def)
  have v4: "inferenceWorkerValid quiet \<lparr>workerName = ''w1''\<rparr>" by (simp add: quiet_def)
  have n: "\<not> setupDone fresh" by (simp add: fresh_def)
  have d: "setupDone ready" by (simp add: ready_def)
  note closed = gate_behind_validation_and_authentication [OF a v1 v2 v3 v4, THEN conjunct1, rule_format, OF n]
  note opened = gate_behind_validation_and_authentication [OF a v1 v2 v3 v4, THEN conjunct2, rule_format, OF d]
  have g: "rejected_with FailedPrecondition fresh
    (rpc_chatCompletion (haven quiet) chat_request caller fresh)"
    by (rule closed [THEN conjunct2, THEN conjunct1])
  have p: "rejected_with FailedPrecondition fresh
    (rpc_pauseInferenceWorker (haven quiet) \<lparr>workerName = ''w1''\<rparr> caller fresh)"
    by (rule closed [THEN conjunct2, THEN conjunct2, THEN conjunct2, THEN conjunct2,
          THEN conjunct2, THEN conjunct1])
  have "rpc_listModels (haven quiet) () caller ready =
      catchErrors (\<lambda>req ctx. listModels quiet req) () caller ready"
    by (rule opened [THEN conjunct2, THEN conjunct2, THEN conjunct1])
  then have l: "rpc_listModels (haven quiet) () caller ready =
     (Inr \<lparr>models = []\<rparr>, ready\<lparr>calls := [GetAllModelsCall]\<rparr>)"
    by (simp add: catchErrors_def listModels_def getAllModels_def io_defs quiet_def ready_def)
  have "rpc_createInferenceWorker (haven quiet) create_request caller ready =
      catchErrors (\<lambda>req ctx. createInferenceWorker quiet req) create_request caller ready"
    by (rule opened [THEN conjunct2, THEN conjunct2, THEN conjunct2, THEN conjunct2,
          THEN conjunct1])
  then have c: "rpc_createInferenceWorker (haven quiet) create_request caller ready =
     (Inr \<lparr>workerName = ''w1''\<rparr>,
      ready\<lparr>calls := [CreateInferenceWorkerControllerCall ''llama-7b'']\<rparr>)"
    by (simp add: catchErrors_def createInferenceWorker_def
        createInferenceWorkerController_def io_defs quiet_def ready_def create_request_def)
  show ?thesis
    by (intro conjI a v1 v2 v3 v4 n g p d l c)
qed

section \<open>The shutdown notification is advisory\<close>

text \<open>
  C6. For an existing worker without a resolved address, \<open>pauseWorker\<close> and
  \<open>deleteWorker\<close> send no shutdown notification and succeed when the upstream pause or
  remove succeeds. When a notification is sent and fails, the failure is written to the
  console as a line of text, and the outcome of the operation is that of the upstream
  pause or remove alone: success when it succeeds, and otherwise \<open>Internal\<close>, the error of
  the pause or remove being written to the console after the line.
\<close>

theorem shutdown_notice_best_effort:
  assumes "existing E (workerName req) w"
  shows "(\<not> truthy (getWorkerIP w) \<longrightarrow>
            (pause_result E (workerName req) = None \<longrightarrow>
               pauseWorker E req s =
                 (Inr \<lparr>workerName = workerName req\<rparr>,
                  s\<lparr>calls := calls s @
                     [CreateComputeAPI, ListCall, PauseCall (workerName req)]\<rparr>)) \<and>
            (remove_result E (workerName req) = None \<longrightarrow>
               deleteWorker E req s =
                 (Inr \<lparr>workerName = workerName req\<rparr>,
                  s\<lparr>calls := calls s @
                     [CreateComputeAPI, ListCall, RemoveCall (workerName req)]\<rparr>))) \<and>
         (\<forall>ip e. getWorkerIP w = Some ip \<and> ip \<noteq> [] \<and> shutdown_result E ip = Some e \<longrightarrow>
            fst (pauseWorker E req s) =
              (case pause_result E (workerName req) of
                 None \<Rightarrow> Inr \<lparr>workerName = workerName req\<rparr>
               | Some e' \<Rightarrow>
                   Inl (ConnectError
                     (''Failed to pause worker '' @ workerName req @ '': '' @ message e')
                     Internal)) \<and>
            fst (deleteWorker E req s) =
              (case remove_result E (workerName req) of
                 None \<Rightarrow> Inr \<lparr>workerName = workerName req\<rparr>
               | Some e' \<Rightarrow>
                   Inl (ConnectError
                     (''Failed to delete worker '' @ workerName req @ '': '' @ message e')
                     Internal)) \<and>
            logged s (pauseWorker E req) =
              Line (''Error sending shutdown signal to worker '' @ workerName req @ '': ''
                      @ message e) #
              (case pause_result E (workerName req) of
                 None \<Rightarrow> []
               | Some e' \<Rightarrow> [ErrorObject e']) \<and>
            logged s (deleteWorker E req) =
              Line (''Error sending shutdown signal to worker '' @ workerName req @ '': ''
                      @ message e) #
              (case remove_result E (workerName req) of
                 None \<Rightarrow> []
               | Some e' \<Rightarrow> [ErrorObject e']))"
proof (intro conjI impI allI)
  assume "\<not> truthy (getWorkerIP w)" and "pause_result E (workerName req) = None"
  then show "pauseWorker E req s =
      (Inr \<lparr>workerName = workerName req\<rparr>,
       s\<lparr>calls := calls s @ [CreateComputeAPI, ListCall, PauseCall (workerName req)]\<rparr>)"
    by (simp add: pause_existing [OF assms] notified_def)
next
  assume "\<not> truthy (getWorkerIP w)" and "remove_result E (workerName req) = None"
  then show "deleteWorker E req s =
      (Inr \<lparr>workerName = workerName req\<rparr>,
       s\<lparr>calls := calls s @ [CreateComputeAPI, ListCall, RemoveCall (workerName req)]\<rparr>)"
    by (simp add: delete_existing [OF assms] notified_def)
next
  fix ip e
  assume h: "getWorkerIP w = Some ip \<and> ip \<noteq> [] \<and> shutdown_result E ip = Some e"
  show "fst (pauseWorker E req s) =
      (case pause_result E (workerName req) of
         None \<Rightarrow> Inr \<lparr>workerName = workerName req\<rparr>
       | Some e' \<Rightarrow>
           Inl (ConnectError
             (''Failed to pause worker '' @ workerName req @ '': '' @ message e') Internal))"
    by (simp add: pause_existing [OF assms] Let_def split: option.split)
  show "fst (deleteWorker E req s) =
      (case remove_result E (workerName req) of
         None \<Rightarrow> Inr \<lparr>workerName = workerName req\<rparr>
       | Some e' \<Rightarrow>
           Inl (ConnectError
             (''Failed to delete worker '' @ workerName req @ '': '' @ message e') Internal))"
    by (simp add: delete_existing [OF assms] Let_def split: option.split)
  have pc: "console (snd (pauseWorker E req s)) =
          console s @
          Line (''Error sending shutdown signal to worker '' @ workerName req @ '': ''
                  @ message e) #
          (case pause_result E (workerName req) of None \<Rightarrow> [] | Some e' \<Rightarrow> [ErrorObject e'])"
    using h by (simp add: pause_existing [OF assms] console_notified Let_def split: option.split)
  show "logged s (pauseWorker E req) =
      Line (''Error sending shutdown signal to worker '' @ workerName req @ '': ''
              @ message e) #
      (case pause_result E (workerName req) of None \<Rightarrow> [] | Some e' \<Rightarrow> [ErrorObject e'])"
    by (simp add: logged_def pc)
  have dc: "console (snd (deleteWorker E req s)) =
          console s @
          Line (''Error sending shutdown signal to worker '' @ workerName req @ '': ''
                  @ message e) #
          (case remove_result E (workerName req) of None \<Rightarrow> [] | Some e' \<Rightarrow> [ErrorObject e'])"
    using h by (simp add: delete_existing [OF assms] console_notified Let_def split: option.split)
  show "logged s (deleteWorker E req) =
      Line (''Error sending shutdown signal to worker '' @ workerName req @ '': ''
              @ message e) #
      (case remove_result E (workerName req) of None \<Rightarrow> [] | Some e' \<Rightarrow> [ErrorObject e'])"
    by (simp add: logged_def dc)
qed

theorem shutdown_notice_best_effort_witness:
  "existing fleet (workerName \<lparr>workerName = ''w3''\<rparr>) w3 \<and>
   \<not> truthy (getWorkerIP w3) \<and>
   pause_result fleet ''w3'' = None \<and>
   remove_result fleet ''w3'' = None \<and>
   pauseWorker fleet \<lparr>workerName = ''w3''\<rparr> ready =
     (Inr \<lparr>workerName = ''w3''\<rparr>,
      ready\<lparr>calls := [CreateComputeAPI, ListCall, PauseCall ''w3'']\<rparr>) \<and>
   deleteWorker fleet \<lparr>workerName = ''w3''\<rparr> ready =
     (Inr \<lparr>workerName = ''w3''\<rparr>,
      ready\<lparr>calls := [CreateComputeAPI, ListCall, RemoveCall ''w3'']\<rparr>) \<and>
   existing unreachable (workerName \<lparr>workerName = ''w1''\<rparr>) w1 \<and>
   existing stubborn (workerName \<lparr>workerName = ''w1''\<rparr>) w1 \<and>
   getWorkerIP w1 = Some ''10.0.0.5'' \<and>
   shutdown_result unreachable ''10.0.0.5'' =
     Some (ConnectError ''connection refused'' UpstreamUnavailable) \<and>
   shutdown_result stubborn ''10.0.0.5'' =
     Some (ConnectError ''connection refused'' UpstreamUnavailable) \<and>
   fst (pauseWorker unreachable \<lparr>workerName = ''w1''\<rparr> ready) = Inr \<lparr>workerName = ''w1''\<rparr> \<and>
   fst (deleteWorker unreachable \<lparr>workerName = ''w1''\<rparr> ready) = Inr \<lparr>workerName = ''w1''\<rparr> \<and>
   logged ready (pauseWorker unreachable \<lparr>workerName = ''w1''\<rparr>) =
     [Line ''Error sending shutdown signal to worker w1: [unavailable] connection refused''] \<and>
   fst (pauseWorker stubborn \<lparr>workerName = ''w1''\<rparr> ready) =
     Inl (ConnectError ''Failed to pause worker w1: quota exceeded'' Internal) \<and>
   logged ready (pauseWorker stubborn \<lparr>workerName = ''w1''\<rparr>) =
     [Line ''Error sending shutdown signal to worker w1: [unavailable] connection refused'',
      ErrorObject (JsError ''quota exceeded'')]"
proof -
  have h3: "existing fleet (workerName \<lparr>workerName = ''w3''\<rparr>) w3"
    by (simp add: existing_def example_defs)
  have n3: "\<not> truthy (getWorkerIP w3)" by (simp add: getWorkerIP_def w3_def)
  have p3: "pause_result fleet ''w3'' = None" by (simp add: example_defs)
  have r3: "remove_result fleet ''w3'' = None" by (simp add: example_defs)
  have h1: "existing unreachable (workerName \<lparr>workerName = ''w1''\<rparr>) w1"
    by (simp add: existing_def example_defs)
  have h1': "existing stubborn (workerName \<lparr>workerName = ''w1''\<rparr>) w1"
    by (simp add: existing_def example_defs)
  have a1: "getWorkerIP w1 = Some ''10.0.0.5''" by (simp add: getWorkerIP_def w1_def)
  have ne: "''10.0.0.5'' \<noteq> []" by simp
  have s1: "shutdown_result unreachable ''10.0.0.5'' =
      Some (ConnectError ''connection refused'' UpstreamUnavailable)"
    by (simp add: example_defs)
  have s1': "shutdown_result stubborn ''10.0.0.5'' =
      Some (ConnectError ''connection refused'' UpstreamUnavailable)"
    by (simp add: example_defs)
  have p1: "pause_result unreachable ''w1'' = None" by (simp add: example_defs)
  have r1: "remove_result unreachable ''w1'' = None" by (simp add: example_defs)
  have p1': "pause_result stubborn ''w1'' = Some (JsError ''quota exceeded'')"
    by (simp add: example_defs)
  note silent =
    shutdown_notice_best_effort [OF h3, of ready, THEN conjunct1, rule_format, OF n3]
  note refused =
    shutdown_notice_best_effort [OF h1, of ready, THEN conjunct2, rule_format,
      OF conjI [OF a1 conjI [OF ne s1]]]
  note refused' =
    shutdown_notice_best_effort [OF h1', of ready, THEN conjunct2, rule_format,
      OF conjI [OF a1 conjI [OF ne s1']]]
  have q1: "pauseWorker fleet \<lparr>workerName = ''w3''\<rparr> ready =
     (Inr \<lparr>workerName = ''w3''\<rparr>,
      ready\<lparr>calls := [CreateComputeAPI, ListCall, PauseCall ''w3'']\<rparr>)"
    using silent [THEN conjunct1, rule_format] p3 by (simp add: ready_def)
  have q2: "deleteWorker fleet \<lparr>workerName = ''w3''\<rparr> ready =
     (Inr \<lparr>workerName = ''w3''\<rparr>,
      ready\<lparr>calls := [CreateComputeAPI, ListCall, RemoveCall ''w3'']\<rparr>)"
    using silent [THEN conjunct2, rule_format] r3 by (simp add: ready_def)
  have q3: "fst (pauseWorker unreachable \<lparr>workerName = ''w1''\<rparr> ready) =
      Inr \<lparr>workerName = ''w1''\<rparr>"
    using refused [THEN conjunct1] by (simp add: p1)
  have q4: "fst (deleteWorker unreachable \<lparr>workerName = ''w1''\<rparr> ready) =
      Inr \<lparr>workerName = ''w1''\<rparr>"
    using refused [THEN conjunct2, THEN conjunct1] by (simp add: r1)
  have q5: "logged ready (pauseWorker unreachable \<lparr>workerName = ''w1''\<rparr>) =
     [Line ''Error sending shutdown signal to worker w1: [unavailable] connection refused'']"
    using refused [THEN conjunct2, THEN conjunct2, THEN conjunct1] by (simp add: p1)
  have q6: "fst (pauseWorker stubborn \<lparr>workerName = ''w1''\<rparr> ready) =
     Inl (ConnectError ''Failed to pause worker w1: quota exceeded'' Internal)"
    using refused' [THEN conjunct1] by (simp add: p1')
  have q7: "logged ready (pauseWorker stubborn \<lparr>workerName = ''w1''\<rparr>) =
     [Line ''Error sending shutdown signal to worker w1: [unavailable] connection refused'',
      ErrorObject (JsError ''quota exceeded'')]"
    using refused' [THEN conjunct2, THEN conjunct2, THEN conjunct1] by (simp add: p1')
  show ?thesis
    by (intro conjI h3 n3 p3 r3 q1 q2 h1 h1' a1 s1 s1' q3 q4 q5 q6 q7)
qed

section \<open>The bootstrap operation is not gated\<close>

text \<open>
  C7. The registered \<open>setup\<close> handler is \<open>setupHandler\<close> wrapped by authentication and
  schema validation (and error normalization), without the setup-readiness gate: a
  malformed request fails with \<open>InvalidInput\<close>, an unauthenticated one with
  \<open>Unauthenticated\<close>, and every other call reaches \<open>setupHandler\<close>, so that a call with an
  accepted key file made while setup is not done performs the setup.
\<close>

theorem setup_not_gated:
  "rpc_setup (haven E) =
     catchErrors (validate (setupInputValid E) (auth (\<lambda>req ctx. setupHandler E req))) \<and>
   (\<not> setupInputValid E req \<longrightarrow>
      rejected_with InvalidInput s (rpc_setup (haven E) req ctx s)) \<and>
   (setupInputValid E req \<and> \<not> authenticated ctx \<longrightarrow>
      rejected_with Unauthenticated s (rpc_setup (haven E) req ctx s)) \<and>
   (setupInputValid E req \<and> authenticated ctx \<longrightarrow>
      rpc_setup (haven E) req ctx s = catchErrors (\<lambda>req ctx. setupHandler E req) req ctx s) \<and>
   (setupInputValid E req \<and> authenticated ctx \<and> \<not> setupDone s \<and>
    keyFile req = Some file \<and> setupController_result E file = None \<longrightarrow>
      rpc_setup (haven E) req ctx s =
        (Inr (), s\<lparr>setupDone := True, calls := calls s @ [SetupControllerCall file]\<rparr>))"
  by (simp add: haven_def pipeline_defs io_defs setupHandler_def setupController_def
      rejected_with_def)

theorem setup_not_gated_witness:
  "\<not> setupInputValid strict \<lparr>keyFile = Some ''key''\<rparr> \<and>
   rejected_with InvalidInput fresh (rpc_setup (haven strict) \<lparr>keyFile = Some ''key''\<rparr> caller fresh) \<and>
   setupInputValid quiet \<lparr>keyFile = Some ''key''\<rparr> \<and> \<not> authenticated stranger \<and>
   rejected_with Unauthenticated fresh (rpc_setup (haven quiet) \<lparr>keyFile = Some ''key''\<rparr> stranger fresh) \<and>
   authenticated caller \<and> \<not> setupDone fresh \<and>
   keyFile \<lparr>keyFile = Some ''key''\<rparr> = Some ''key'' \<and>
   setupController_result quiet ''key'' = None \<and>
   rpc_setup (haven quiet) \<lparr>keyFile = Some ''key''\<rparr> caller fresh =
     (Inr (), fresh\<lparr>setupDone := True, calls := [SetupControllerCall ''key'']\<rparr>)"
proof -
  have a: "\<not> setupInputValid strict \<lparr>keyFile = Some ''key''\<rparr>"
    by (simp add: strict_def)
  have b: "setupInputValid quiet \<lparr>keyFile = Some ''key''\<rparr>" by (simp add: quiet_def)
  have c: "\<not> authenticated stranger" by (simp add: stranger_def)
  have d: "authenticated caller" by (simp add: caller_def)
  have e: "\<not> setupDone fresh" by (simp add: fresh_def)
  have f: "setupController_result quiet ''key'' = None" by (simp add: quiet_def)
  have invalid: "rejected_with InvalidInput fresh (rpc_setup (haven strict) \<lparr>keyFile = Some ''key''\<rparr> caller fresh)"
    by (rule setup_not_gated [THEN conjunct2, THEN conjunct1, rule_format, OF a])
  have anonymous: "rejected_with Unauthenticated fresh (rpc_setup (haven quiet) \<lparr>keyFile = Some ''key''\<rparr> stranger fresh)"
    by (rule setup_not_gated [THEN conjunct2, THEN conjunct2, THEN conjunct1, rule_format,
          OF conjI [OF b c]])
  have performed: "rpc_setup (haven quiet) \<lparr>keyFile = Some ''key''\<rparr> caller fresh =
     (Inr (), fresh\<lparr>setupDone := True, calls := [SetupControllerCall ''key'']\<rparr>)"
  proof -
    have "rpc_setup (haven quiet) \<lparr>keyFile = Some ''key''\<rparr> caller fresh =
      (Inr (), fresh\<lparr>setupDone := True,
         calls := calls fresh @ [SetupControllerCall ''key'']\<rparr>)"
      by (rule setup_not_gated [THEN conjunct2, THEN conjunct2, THEN conjunct2, THEN conjunct2,
            rule_format]) (simp add: b d e f)
    then show ?thesis by (simp add: fresh_def)
  qed
  show ?thesis
    by (intro conjI a b c d e f invalid anonymous performed) simp_all
qed

section \<open>Relaying the fragments\<close>

text \<open>
  C8. \<open>chatCompletion\<close> relays the upstream fragments one for one and in order: at every
  length \<open>k\<close> the responses yielded so far are as many as the upstream fragments yielded so
  far and carry the same texts in the same positions; when the upstream sequence is finite,
  the relayed sequence has the same length, its \<open>i\<close>-th response carries the text of the
  \<open>i\<close>-th fragment, and it ends the way the upstream sequence ends.
\<close>

theorem chat_completion_relays_in_order:
  assumes "generateController_result E (cc_workerName req) (cc_messages req) = Inr st"
  shows "\<exists>out. chatCompletion E req s = (Inr out, s) \<and>
           (\<forall>k. length (yielded k out) = length (yielded k st) \<and>
                map resp_text (yielded k out) = map frag_text (yielded k st)) \<and>
           (\<forall>ds r. st = of_list ds r \<longrightarrow>
              (\<exists>rs. out = of_list rs r \<and> length rs = length ds \<and>
                    (\<forall>i<length ds. resp_text (rs ! i) = frag_text (ds ! i))))"
proof -
  have run: "chatCompletion E req s = (Inr (relay st), s)"
    by (simp add: chatCompletion_def ret_def assms)
  have len: "length (yielded k (relay st)) = length (yielded k st)" for k
    using yielded_relay [of k st, THEN arg_cong, of length] by simp
  have fin: "\<exists>rs. relay st = of_list rs r \<and> length rs = length ds \<and>
               (\<forall>i<length ds. resp_text (rs ! i) = frag_text (ds ! i))"
    if "st = of_list ds r" for ds r
    using that
    by (intro exI [of _ "map (\<lambda>d. \<lparr>resp_text = frag_text d\<rparr>) ds"]) (simp add: relay_of_list)
  show ?thesis
  proof (intro exI [of _ "relay st"] conjI allI impI)
    show "chatCompletion E req s = (Inr (relay st), s)" by (rule run)
  next
    fix k show "length (yielded k (relay st)) = length (yielded k st)" by (rule len)
  next
    fix k show "map resp_text (yielded k (relay st)) = map frag_text (yielded k st)"
      by (rule yielded_relay)
  next
    fix ds r assume "st = of_list ds r"
    then show "\<exists>rs. relay st = of_list rs r \<and> length rs = length ds \<and>
                 (\<forall>i<length ds. resp_text (rs ! i) = frag_text (ds ! i))"
      by (rule fin)
  qed
qed

theorem chat_completion_relays_in_order_witness:
  "generateController_result chatty (cc_workerName chat_request) (cc_messages chat_request) =
     Inr (of_list [\<lparr>frag_text = ''Hel''\<rparr>, \<lparr>frag_text = ''lo''\<rparr>] None) \<and>
   chatCompletion chatty chat_request ready =
     (Inr (of_list [\<lparr>resp_text = ''Hel''\<rparr>, \<lparr>resp_text = ''lo''\<rparr>] None), ready)"
proof -
  have h: "generateController_result chatty (cc_workerName chat_request)
             (cc_messages chat_request) =
           Inr (of_list [\<lparr>frag_text = ''Hel''\<rparr>, \<lparr>frag_text = ''lo''\<rparr>] None)"
    by (simp add: chatty_def)
  from chat_completion_relays_in_order [OF h, of ready] obtain out
    where run: "chatCompletion chatty chat_request ready = (Inr out, ready)"
      and fin: "\<forall>ds r. of_list [\<lparr>frag_text = ''Hel''\<rparr>, \<lparr>frag_text = ''lo''\<rparr>] None = of_list ds r \<longrightarrow>
              (\<exists>rs. out = of_list rs r \<and> length rs = length ds \<and>
                    (\<forall>i<length ds. resp_text (rs ! i) = frag_text (ds ! i)))"
    by (elim exE conjE)
  from fin [rule_format, OF refl] obtain rs
    where out: "out = of_list rs None" and len: "length rs = 2"
      and same: "\<forall>i<2. resp_text (rs ! i) =
                  frag_text ([\<lparr>frag_text = ''Hel''\<rparr>, \<lparr>frag_text = ''lo''\<rparr>] ! i)"
    by (elim exE conjE) simp
  from len obtain a b where rs: "rs = [a, b]"
    by (auto simp: length_Suc_conv numeral_2_eq_2)
  from same [rule_format, of 0] same [rule_format, of 1] rs
  have "resp_text a = ''Hel''" and "resp_text b = ''lo''"
    by simp_all
  then have "a = \<lparr>resp_text = ''Hel''\<rparr>" and "b = \<lparr>resp_text = ''lo''\<rparr>"
    by (cases a, simp, cases b, simp)
  with run out rs h show ?thesis by simp
qed

section \<open>Pause and delete do not look at the status\<close>

text \<open>
  C9. For an existing worker, whatever status \<open>st\<close> the listing reports for it,
  \<open>pauseWorker\<close> issues the upstream pause and \<open>deleteWorker\<close> the upstream remove,
  right after the existence check and the advisory notification.
\<close>

theorem pause_delete_any_status:
  assumes "existing E (workerName req) (w\<lparr>status := st\<rparr>)"
  shows "issued s (pauseWorker E req) =
           [CreateComputeAPI, ListCall] @
           (if truthy (getWorkerIP w) then [ShutdownCall (the (getWorkerIP w))] else []) @
           [PauseCall (workerName req)] \<and>
         issued s (deleteWorker E req) =
           [CreateComputeAPI, ListCall] @
           (if truthy (getWorkerIP w) then [ShutdownCall (the (getWorkerIP w))] else []) @
           [RemoveCall (workerName req)]"
proof -
  have ip: "getWorkerIP (w\<lparr>status := st\<rparr>) = getWorkerIP w"
    by (simp add: getWorkerIP_def)
  have p: "calls (snd (pauseWorker E req s)) =
           calls s @ [CreateComputeAPI, ListCall] @
           (if truthy (getWorkerIP w) then [ShutdownCall (the (getWorkerIP w))] else []) @
           [PauseCall (workerName req)]"
    by (simp add: pause_existing [OF assms] calls_notified ip Let_def split: option.split)
  have d: "calls (snd (deleteWorker E req s)) =
           calls s @ [CreateComputeAPI, ListCall] @
           (if truthy (getWorkerIP w) then [ShutdownCall (the (getWorkerIP w))] else []) @
           [RemoveCall (workerName req)]"
    by (simp add: delete_existing [OF assms] calls_notified ip Let_def split: option.split)
  show ?thesis
    by (simp add: issued_def p d)
qed

theorem pause_delete_any_status_witness:
  "existing fleet (workerName \<lparr>workerName = ''w2''\<rparr>) (w2\<lparr>status := Some ''TERMINATED''\<rparr>) \<and>
   issued ready (pauseWorker fleet \<lparr>workerName = ''w2''\<rparr>) =
     [CreateComputeAPI, ListCall, PauseCall ''w2''] \<and>
   existing fleet (workerName \<lparr>workerName = ''w3''\<rparr>) (w3\<lparr>status := Some ''PROVISIONING''\<rparr>) \<and>
   issued ready (deleteWorker fleet \<lparr>workerName = ''w3''\<rparr>) =
     [CreateComputeAPI, ListCall, RemoveCall ''w3'']"
proof -
  have h2: "existing fleet (workerName \<lparr>workerName = ''w2''\<rparr>) (w2\<lparr>status := Some ''TERMINATED''\<rparr>)"
    by (simp add: existing_def example_defs)
  have h3: "existing fleet (workerName \<lparr>workerName = ''w3''\<rparr>) (w3\<lparr>status := Some ''PROVISIONING''\<rparr>)"
    by (simp add: existing_def example_defs)
  have a2: "getWorkerIP w2 = None" by (simp add: getWorkerIP_def w2_def)
  have a3: "getWorkerIP w3 = None" by (simp add: getWorkerIP_def w3_def)
  show ?thesis
    using h2 h3 pause_delete_any_status [OF h2, of ready] pause_delete_any_status [OF h3, of ready] by (simp add: a2 a3)
qed

section \<open>The empty worker name\<close>

text \<open>
  C10. A request whose worker name is the empty string fails with \<open>NotFound\<close> in
  \<open>pauseWorker\<close>, \<open>resumeWorker\<close> and \<open>deleteWorker\<close>, whatever the listing holds:
  a record without a name is not found, and a record found with the empty name is
  rejected like no record.
\<close>

theorem empty_name_not_found:
  assumes "workerName req = []" and "createComputeAPI_result E = None"
    and "list_result E = Inr ws"
  shows "pauseWorker E req s =
           (Inl (ConnectError ''Worker  does not exist'' NotFound),
            s\<lparr>calls := calls s @ [CreateComputeAPI, ListCall]\<rparr>) \<and>
         resumeWorker E req s =
           (Inl (ConnectError ''Worker  does not exist'' NotFound),
            s\<lparr>calls := calls s @ [CreateComputeAPI, ListCall]\<rparr>) \<and>
         deleteWorker E req s =
           (Inl (ConnectError ''Worker  does not exist'' NotFound),
            s\<lparr>calls := calls s @ [CreateComputeAPI, ListCall]\<rparr>)"
proof -
  have t: "\<And>w. find (\<lambda>w'. name w' = Some []) ws = Some w \<Longrightarrow> \<not> truthy (name w)"
    by (auto dest: find_name)
  have p: "pauseWorker E req s =
           (Inl (ConnectError ''Worker  does not exist'' NotFound),
            s\<lparr>calls := calls s @ [CreateComputeAPI, ListCall]\<rparr>)"
    unfolding pauseWorker_def using t
    by (simp add: lookup_step assms throw_def split: option.split)
  have r: "resumeWorker E req s =
           (Inl (ConnectError ''Worker  does not exist'' NotFound),
            s\<lparr>calls := calls s @ [CreateComputeAPI, ListCall]\<rparr>)"
    unfolding resumeWorker_def using t
    by (simp add: lookup_step assms throw_def split: option.split)
  have d: "deleteWorker E req s =
           (Inl (ConnectError ''Worker  does not exist'' NotFound),
            s\<lparr>calls := calls s @ [CreateComputeAPI, ListCall]\<rparr>)"
    unfolding deleteWorker_def using t
    by (simp add: lookup_step assms throw_def split: option.split)
  show ?thesis by (simp add: p r d)
qed

theorem empty_name_not_found_witness:
  "workerName \<lparr>workerName = []\<rparr> = [] \<and>
   createComputeAPI_result fleet = None \<and>
   list_result fleet = Inr [unnamed, empty_named, w1, w2, w3] \<and>
   resumeWorker fleet \<lparr>workerName = []\<rparr> ready =
     (Inl (ConnectError ''Worker  does not exist'' NotFound),
      ready\<lparr>calls := [CreateComputeAPI, ListCall]\<rparr>)"
proof -
  have a: "workerName \<lparr>workerName = []\<rparr> = []" by simp
  have b: "createComputeAPI_result fleet = None" by (simp add: fleet_def quiet_def)
  have c: "list_result fleet = Inr [unnamed, empty_named, w1, w2, w3]"
    by (simp add: fleet_def)
  show ?thesis using a b c empty_name_not_found [OF a b c, of ready] by (simp add: ready_def)
qed

end
